theory Spec2Isabelle
  imports Complex_Main "HOL-Library.Word"
begin

section \<open>Strings\<close>

text \<open>
  A JavaScript string is a sequence of 16-bit code units; \<open>length\<close> counts code units, as
  \<^verbatim>\<open>query.length\<close> does. \<open>js\<close> turns an ASCII literal into such a string.
\<close>

type_synonym jsstring = "16 word list"

definition js :: "string \<Rightarrow> jsstring" where
  "js s = map (\<lambda>c. of_nat (of_char c)) s"

text \<open>
  \<^verbatim>\<open>String.prototype.trim\<close> removes white space and line terminators from both ends:
  TAB, LF, VT, FF, CR, SPACE, NBSP, U+1680, U+2000..U+200A, U+2028, U+2029, U+202F,
  U+205F, U+3000 and U+FEFF.
\<close>

definition isWhiteSpace :: "16 word \<Rightarrow> bool" where
  "isWhiteSpace c =
     (c \<in> set [0x9, 0xA, 0xB, 0xC, 0xD, 0x20, 0xA0, 0x1680, 0x2028, 0x2029,
                0x202F, 0x205F, 0x3000, 0xFEFF]
      \<or> (0x2000 \<le> c \<and> c \<le> 0x200A))"

definition trim :: "jsstring \<Rightarrow> jsstring" where
  "trim s = rev (dropWhile isWhiteSpace (rev (dropWhile isWhiteSpace s)))"

text \<open>
  \<^verbatim>\<open>encodeURIComponent\<close>: the characters A-Z a-z 0-9 - _ . ! ~ * ' ( ) stay; every other
  code point is written as the percent-escaped octets of its UTF-8 encoding. A surrogate
  code unit that is not part of a pair makes the library function throw a URIError, which
  is the value \<open>None\<close> here.
\<close>

definition uriUnescaped :: "16 word \<Rightarrow> bool" where
  "uriUnescaped c =
     ((0x41 \<le> c \<and> c \<le> 0x5A) \<or> (0x61 \<le> c \<and> c \<le> 0x7A) \<or> (0x30 \<le> c \<and> c \<le> 0x39)
      \<or> c \<in> set [0x2D, 0x5F, 0x2E, 0x21, 0x7E, 0x2A, 0x27, 0x28, 0x29])"

definition isLeadSurrogate :: "16 word \<Rightarrow> bool" where
  "isLeadSurrogate c = (0xD800 \<le> c \<and> c \<le> 0xDBFF)"

definition isTrailSurrogate :: "16 word \<Rightarrow> bool" where
  "isTrailSurrogate c = (0xDC00 \<le> c \<and> c \<le> 0xDFFF)"

definition codePoint :: "16 word \<Rightarrow> 16 word \<Rightarrow> nat" where
  "codePoint c d = (unat c - 0xD800) * 0x400 + (unat d - 0xDC00) + 0x10000"

definition utf8 :: "nat \<Rightarrow> nat list" where
  "utf8 cp =
     (if cp < 0x80 then [cp]
      else if cp < 0x800 then [0xC0 + cp div 64, 0x80 + cp mod 64]
      else if cp < 0x10000 then
        [0xE0 + cp div 4096, 0x80 + (cp div 64) mod 64, 0x80 + cp mod 64]
      else [0xF0 + cp div 262144, 0x80 + (cp div 4096) mod 64,
            0x80 + (cp div 64) mod 64, 0x80 + cp mod 64])"

definition hexDigit :: "nat \<Rightarrow> 16 word" where
  "hexDigit d = (if d < 10 then of_nat (0x30 + d) else of_nat (0x37 + d))"

definition percentEncode :: "nat list \<Rightarrow> jsstring" where
  "percentEncode octets = concat (map (\<lambda>b. [0x25, hexDigit (b div 16), hexDigit (b mod 16)]) octets)"

fun encodeURIComponent :: "jsstring \<Rightarrow> jsstring option" where
  "encodeURIComponent [] = Some []"
| "encodeURIComponent (c # cs) =
     (if uriUnescaped c then map_option ((#) c) (encodeURIComponent cs)
      else if isLeadSurrogate c then
        (case cs of
           [] \<Rightarrow> None
         | d # ds \<Rightarrow>
             if isTrailSurrogate d
             then map_option ((@) (percentEncode (utf8 (codePoint c d)))) (encodeURIComponent ds)
             else None)
      else if isTrailSurrogate c then None
      else map_option ((@) (percentEncode (utf8 (unat c)))) (encodeURIComponent cs))"

section \<open>The data model (types.ts)\<close>

text \<open>
  Several interfaces have a field \<open>id\<close> or \<open>status\<close>; the fields of the profile, the
  connector and the job record carry a prefix (\<open>tp_\<close>, \<open>c_\<close>, \<open>j_\<close>) to keep them apart.
\<close>

datatype Platform = SNAPCHAT | INSTAGRAM | FACEBOOK
datatype AccountStatus = PUBLIC | PRIVATE | SUSPENDED
datatype EncryptionLevel = AES_256 | NONE
datatype MeoContainerState = LOCKED | EXPOSED

record Metadata =
  realName :: "jsstring option"
  accountCreated :: jsstring
  lastActive :: jsstring
  score :: "int option"
  avatarUrl :: "jsstring option"

record Security =
  encryptionLevel :: EncryptionLevel
  meoContainer :: MeoContainerState
  twoFactorAuth :: bool

record TargetProfile =
  tp_id :: jsstring
  username :: jsstring
  platform :: Platform
  tp_status :: AccountStatus
  metadata :: Metadata
  security :: Security

datatype ReconStatus = IDLE | CONNECTING | FETCHING_HEADERS | PARSING_JSON | COMPLETE | ERROR

datatype LogType = info | sys | success | warn | error

record LogEntry =
  time :: jsstring
  msg :: jsstring
  type :: LogType

datatype ConnectorMode = API | UPLOAD | CRAWL

record Connector =
  c_id :: jsstring
  c_label :: jsstring
  domain :: jsstring
  mode :: ConnectorMode
  compliant :: bool

datatype JobStatus = QUEUED | RUNNING | COMPLETED | ERRORED

record JobRecord =
  j_id :: jsstring
  source :: jsstring
  j_status :: JobStatus
  artifacts :: nat
  updatedAt :: jsstring

section \<open>Dates\<close>

text \<open>
  A \<^verbatim>\<open>Date\<close> is its time value, the milliseconds since 1970-01-01T00:00:00Z, an integer.
  \<^verbatim>\<open>toISOString\<close> prints it as \<open>YYYY-MM-DDTHH:mm:ss.sssZ\<close> in UTC, the year with a sign and
  six digits outside 0..9999. \<open>civil\<close> is the proleptic Gregorian date of a day number.
\<close>

definition digit :: "int \<Rightarrow> 16 word" where
  "digit n = of_nat (0x30 + nat (n mod 10))"

definition pad2 :: "int \<Rightarrow> jsstring" where
  "pad2 n = [digit (n div 10), digit n]"

definition pad3 :: "int \<Rightarrow> jsstring" where
  "pad3 n = [digit (n div 100), digit (n div 10), digit n]"

definition pad4 :: "int \<Rightarrow> jsstring" where
  "pad4 n = [digit (n div 1000), digit (n div 100), digit (n div 10), digit n]"

definition pad6 :: "int \<Rightarrow> jsstring" where
  "pad6 n = [digit (n div 100000), digit (n div 10000), digit (n div 1000),
             digit (n div 100), digit (n div 10), digit n]"

definition civil :: "int \<Rightarrow> int \<times> int \<times> int" where
  "civil day =
     (let z = day + 719468;
          era = z div 146097;
          doe = z mod 146097;
          yoe = (doe - doe div 1460 + doe div 36524 - doe div 146096) div 365;
          doy = doe - (365 * yoe + yoe div 4 - yoe div 100);
          mp = (5 * doy + 2) div 153;
          d = doy - (153 * mp + 2) div 5 + 1;
          m = (if mp < 10 then mp + 3 else mp - 9);
          y = yoe + era * 400 + (if m \<le> 2 then 1 else 0)
      in (y, m, d))"

definition isoYear :: "int \<Rightarrow> jsstring" where
  "isoYear y =
     (if 0 \<le> y \<and> y \<le> 9999 then pad4 y
      else if y < 0 then 0x2D # pad6 (- y)
      else 0x2B # pad6 y)"

definition isoDate :: "int \<Rightarrow> jsstring" where
  "isoDate t =
     (case civil (t div 86400000) of
        (y, m, d) \<Rightarrow> isoYear y @ [0x2D] @ pad2 m @ [0x2D] @ pad2 d)"

definition isoTime :: "int \<Rightarrow> jsstring" where
  "isoTime t =
     (let ms = t mod 86400000
      in pad2 (ms div 3600000) @ [0x3A] @ pad2 ((ms div 60000) mod 60) @ [0x3A]
         @ pad2 ((ms div 1000) mod 60) @ [0x2E] @ pad3 (ms mod 1000))"

definition toISOString :: "int \<Rightarrow> jsstring" where
  "toISOString t = isoDate t @ [0x54] @ isoTime t @ [0x5A]"

text \<open>
  \<^verbatim>\<open>split('T')\<close> cuts a string at every code unit \<open>T\<close> (0x54); \<^verbatim>\<open>slice(0, -1)\<close> drops
  the last code unit.
\<close>

fun split :: "16 word \<Rightarrow> jsstring \<Rightarrow> jsstring list" where
  "split sep [] = [[]]"
| "split sep (c # cs) =
     (if c = sep then [] # split sep cs
      else (case split sep cs of p # ps \<Rightarrow> (c # p) # ps | [] \<Rightarrow> [[c]]))"

text \<open>
  \<^verbatim>\<open>formatTime = () => new Date().toISOString().split('T')[1].slice(0, -1)\<close>, as a function
  of the clock reading. An ISO string has exactly one \<open>T\<close>, so the piece of index 1 exists
  (lemma \<open>split_toISOString\<close> below).
\<close>

definition formatTime :: "int \<Rightarrow> jsstring" where
  "formatTime now = butlast (split 0x54 (toISOString now) ! 1)"

section \<open>The profile generator\<close>

text \<open>
  \<open>buildMockProfile\<close> reads the clock, calls \<^verbatim>\<open>Math.random()\<close> four times and
  \<^verbatim>\<open>crypto.randomUUID()\<close> once. The clock reading is the argument \<open>now\<close>; the values of the
  other impure calls of one invocation are the record \<open>Impure\<close>. A random draw is a real
  number; the rounding of double arithmetic is not modelled. \<^verbatim>\<open>new Date(x)\<close> truncates
  \<open>x\<close> towards zero.
\<close>

record Impure =
  rCreated :: real
  rLastActive :: real
  uuid :: jsstring
  rScore :: real
  rTwoFactor :: real

text \<open>
  What the \<^verbatim>\<open>try\<close> block of \<open>executeRecon\<close> can throw: the explicit
  \<^verbatim>\<open>new Error(message)\<close>, or the URIError of \<^verbatim>\<open>encodeURIComponent\<close>.
\<close>

datatype Exn = Error jsstring | URIError

definition toInteger :: "real \<Rightarrow> int" where
  "toInteger x = (if 0 \<le> x then \<lfloor>x\<rfloor> else \<lceil>x\<rceil>)"

definition buildMockProfile :: "int \<Rightarrow> Impure \<Rightarrow> jsstring \<Rightarrow> Exn + TargetProfile" where
  "buildMockProfile now i name =
     (let created = toInteger (real_of_int now - rCreated i * 1000 * 60 * 60 * 24 * 365);
          active = toInteger (real_of_int now - rLastActive i * 1000 * 60 * 60 * 24)
      in case encodeURIComponent name of
           None \<Rightarrow> Inl URIError
         | Some seed \<Rightarrow>
             Inr \<lparr> tp_id = uuid i,
                   username = name,
                   platform = SNAPCHAT,
                   tp_status = PUBLIC,
                   metadata = \<lparr> realName = Some (js ''Unknown Subject''),
                                accountCreated = toISOString created,
                                lastActive = toISOString active,
                                score = Some \<lfloor>rScore i * 500000\<rfloor>,
                                avatarUrl = Some (js ''https://api.dicebear.com/9.x/thumbs/svg?seed='' @ seed) \<rparr>,
                   security = \<lparr> encryptionLevel = AES_256,
                                meoContainer = LOCKED,
                                twoFactorAuth = (rTwoFactor i > 0.35) \<rparr> \<rparr>)"

section \<open>The component state\<close>

text \<open>
  The six \<^verbatim>\<open>useState\<close> cells of \<open>App\<close>, together with what the component's callbacks
  read and leave behind outside of React: the clock, the pending \<^verbatim>\<open>setTimeout\<close> callbacks
  and the number of \<open>buildMockProfile\<close> calls made so far.

  \<open>executeRecon\<close> is an \<^verbatim>\<open>async\<close> function with three
  \<^verbatim>\<open>await new Promise((resolve) => setTimeout(resolve, d))\<close>. At each of them it is
  suspended; its continuation is a pending timer that remembers the \<open>query\<close> of the closure
  and the \<^verbatim>\<open>await\<close> it is waiting at.
\<close>

datatype Stage = AfterConnect | AfterHeaders | AfterParse

record Timer =
  due :: int
  captured :: jsstring
  stage :: Stage

record Sys =
  query :: jsstring
  status :: ReconStatus
  logs :: "LogEntry list"
  targetData :: "TargetProfile option"
  errorMessage :: jsstring
  encryptedDetections :: nat
  clock :: int
  timers :: "Timer list"
  built :: nat

text \<open>
  The host: the values the impure calls of the \<open>k\<close>-th invocation of \<open>buildMockProfile\<close>
  return, and the message text of the engine's URIError.
\<close>

record Host =
  impure :: "nat \<Rightarrow> Impure"
  uriMalformed :: jsstring

definition initial :: "int \<Rightarrow> Sys" where
  "initial t0 =
     \<lparr> query = [], status = IDLE, logs = [], targetData = None, errorMessage = [],
       encryptedDetections = 0, clock = t0, timers = [], built = 0 \<rparr>"

definition setQuery :: "jsstring \<Rightarrow> Sys \<Rightarrow> Sys" where
  "setQuery q s = s\<lparr>query := q\<rparr>"

text \<open>
  \<open>addLog\<close> appends one entry, stamped with the time of day. Its second parameter defaults
  to \<open>info\<close> in the source; the calls below that pass \<open>info\<close> are the ones that omit it.
\<close>

definition addLog :: "jsstring \<Rightarrow> LogType \<Rightarrow> Sys \<Rightarrow> Sys" where
  "addLog message t s =
     s\<lparr>logs := logs s @ [\<lparr>time = formatTime (clock s), msg = message, type = t\<rparr>]\<rparr>"

definition clearSession :: "Sys \<Rightarrow> Sys" where
  "clearSession s =
     (let s1 = s\<lparr>logs := []\<rparr>;
          s2 = s1\<lparr>targetData := None\<rparr>;
          s3 = s2\<lparr>errorMessage := []\<rparr>
      in s3\<lparr>status := IDLE\<rparr>)"

definition setTimeout :: "int \<Rightarrow> jsstring \<Rightarrow> Stage \<Rightarrow> Sys \<Rightarrow> Sys" where
  "setTimeout delay q st s =
     s\<lparr>timers := timers s @ [\<lparr>due = clock s + delay, captured = q, stage = st\<rparr>]\<rparr>"

text \<open>The synchronous part of \<open>executeRecon\<close>, up to its first \<^verbatim>\<open>await\<close>.\<close>

definition executeRecon :: "Sys \<Rightarrow> Sys" where
  "executeRecon s =
     (if trim (query s) = []
      then s\<lparr>errorMessage := js ''Enter a username to start reconnaissance.''\<rparr>
      else
        (let s1 = clearSession s;
             s2 = s1\<lparr>status := CONNECTING\<rparr>;
             s3 = addLog (js ''Initializing network socket for '' @ query s @ js ''...'') sys s2
         in setTimeout 500 (query s) AfterConnect s3))"

text \<open>
  The \<^verbatim>\<open>catch\<close> block. Both things the \<^verbatim>\<open>try\<close> block can throw are instances of
  \<^verbatim>\<open>Error\<close>, so \<open>reason\<close> is the message of what was thrown.
\<close>

definition message :: "Host \<Rightarrow> Exn \<Rightarrow> jsstring" where
  "message h e = (case e of Error m \<Rightarrow> m | URIError \<Rightarrow> uriMalformed h)"

definition catchBlock :: "Host \<Rightarrow> Exn \<Rightarrow> Sys \<Rightarrow> Sys" where
  "catchBlock h e s =
     (let s1 = s\<lparr>status := ERROR\<rparr>;
          reason = message h e;
          s2 = s1\<lparr>errorMessage := reason\<rparr>
      in addLog (js ''FATAL: '' @ reason) error s2)"

text \<open>The continuation of \<open>executeRecon\<close> after each \<^verbatim>\<open>await\<close>, up to the next one.\<close>

definition resume :: "Host \<Rightarrow> Timer \<Rightarrow> Sys \<Rightarrow> Sys" where
  "resume h tm s =
     (let q = captured tm in
      case stage tm of
        AfterConnect \<Rightarrow>
          (let s1 = addLog (js ''TLS handshake complete.'') info s;
               s2 = s1\<lparr>status := FETCHING_HEADERS\<rparr>
           in setTimeout 500 q AfterHeaders s2)
      | AfterHeaders \<Rightarrow>
          (let s1 = addLog (js ''GET /api/v1/profile/'' @ q @ js '' -> 200 OK'') success s
           in if length q < 3
              then catchBlock h (Error (js ''Username too short (HTTP 400)'')) s1
              else
                (let s2 = s1\<lparr>status := PARSING_JSON\<rparr>;
                     s3 = addLog (js ''Streaming JSON payload...'') info s2
                 in setTimeout 600 q AfterParse s3))
      | AfterParse \<Rightarrow>
          (let s0 = s\<lparr>built := built s + 1\<rparr>
           in case buildMockProfile (clock s) (impure h (built s)) q of
                Inl e \<Rightarrow> catchBlock h e s0
              | Inr profile \<Rightarrow>
                  (let s1 = s0\<lparr>targetData := Some profile\<rparr>;
                       s2 = s1\<lparr>encryptedDetections := encryptedDetections s1 + 1\<rparr>;
                       s3 = s2\<lparr>status := COMPLETE\<rparr>;
                       s4 = addLog (js ''Data object materialized.'') success s3
                   in addLog
                        (js ''MEO container detected: AES-256 encrypted. No access without device key.'')
                        warn s4)))"

section \<open>The scheduler\<close>

text \<open>
  Timers fire in the order of their due times, the one created first among equals.
  \<open>fire\<close> runs the next pending callback; \<open>run_to h t\<close> lets the clock reach \<open>t\<close>, running
  every callback that is due by then, those scheduled on the way included;
  \<open>advance h d\<close> lets \<open>d\<close> milliseconds pass.
\<close>

fun earliest :: "Timer list \<Rightarrow> Timer option" where
  "earliest [] = None"
| "earliest (t # ts) =
     (case earliest ts of
        None \<Rightarrow> Some t
      | Some u \<Rightarrow> if due u < due t then Some u else Some t)"

definition fire :: "Host \<Rightarrow> Sys \<Rightarrow> Sys" where
  "fire h s =
     (case earliest (timers s) of
        None \<Rightarrow> s
      | Some tm \<Rightarrow>
          resume h tm (s\<lparr>timers := remove1 tm (timers s), clock := max (clock s) (due tm)\<rparr>))"

fun awaits :: "Stage \<Rightarrow> nat" where
  "awaits AfterConnect = 3"
| "awaits AfterHeaders = 2"
| "awaits AfterParse = 1"

definition pendingWork :: "Sys \<Rightarrow> nat" where
  "pendingWork s = sum_list (map (\<lambda>tm. awaits (stage tm)) (timers s))"

function run_to :: "Host \<Rightarrow> int \<Rightarrow> Sys \<Rightarrow> Sys" where
  "run_to h t s =
     (case earliest (timers s) of
        None \<Rightarrow> s\<lparr>clock := max (clock s) t\<rparr>
      | Some tm \<Rightarrow>
          if due tm \<le> t then run_to h t (fire h s)
          else s\<lparr>clock := max (clock s) t\<rparr>)"
  by pat_completeness auto
termination
proof (relation "measure (\<lambda>(h, t, s). pendingWork s)")
  show "wf (measure (\<lambda>(h, t, s). pendingWork s))"
    by simp
next
  fix h :: Host and t :: int and s :: Sys and tm :: Timer
  assume e: "earliest (timers s) = Some tm"
  have mem: "earliest ts = Some u \<Longrightarrow> u \<in> set ts" for ts :: "Timer list" and u
    by (induction ts arbitrary: u) (auto split: option.splits if_splits)
  have rem: "u \<in> set ts \<Longrightarrow>
      sum_list (map (\<lambda>x. awaits (stage x)) (remove1 u ts)) + awaits (stage u)
        = sum_list (map (\<lambda>x. awaits (stage x)) ts)" for ts :: "Timer list" and u
    by (induction ts) auto
  have in_ts: "tm \<in> set (timers s)"
    using e by (rule mem)
  have "pendingWork (fire h s) < pendingWork s"
    using rem [OF in_ts] e
    by (cases "stage tm")
       (auto simp: pendingWork_def fire_def resume_def setTimeout_def addLog_def
          catchBlock_def Let_def split: sum.splits)
  then show "((h, t, fire h s), (h, t, s)) \<in> measure (\<lambda>(h, t, s). pendingWork s)"
    by simp
qed

definition advance :: "Host \<Rightarrow> int \<Rightarrow> Sys \<Rightarrow> Sys" where
  "advance h d s = run_to h (clock s + d) s"

section \<open>The RUN button\<close>

text \<open>
  The button's \<^verbatim>\<open>disabled\<close> attribute; a disabled button does not call its
  \<^verbatim>\<open>onClick\<close> handler, which is \<open>executeRecon\<close>.
\<close>

definition runDisabled :: "Sys \<Rightarrow> bool" where
  "runDisabled s =
     (status s = CONNECTING \<or> status s = FETCHING_HEADERS \<or> status s = PARSING_JSON)"

definition clickRun :: "Sys \<Rightarrow> Sys" where
  "clickRun s = (if runDisabled s then s else executeRecon s)"

text \<open>
  The states of a session: the user edits the query, clicks RUN, and time passes.
  \<open>executeRecon\<close> and \<open>clearSession\<close> called past the button are included as well.
\<close>

inductive reachable :: "Host \<Rightarrow> Sys \<Rightarrow> bool" for h :: Host where
  r_initial: "reachable h (initial t0)"
| r_setQuery: "reachable h s \<Longrightarrow> reachable h (setQuery q s)"
| r_clickRun: "reachable h s \<Longrightarrow> reachable h (clickRun s)"
| r_advance: "reachable h s \<Longrightarrow> 0 \<le> d \<Longrightarrow> reachable h (advance h d s)"
| r_executeRecon: "reachable h s \<Longrightarrow> reachable h (executeRecon s)"
| r_clearSession: "reachable h s \<Longrightarrow> reachable h (clearSession s)"

text \<open>
  The sessions the interface allows: the user edits the query, clicks RUN, and time passes.
\<close>

inductive session :: "Host \<Rightarrow> Sys \<Rightarrow> bool" for h :: Host where
  s_initial: "session h (initial t0)"
| s_setQuery: "session h s \<Longrightarrow> session h (setQuery q s)"
| s_clickRun: "session h s \<Longrightarrow> session h (clickRun s)"
| s_advance: "session h s \<Longrightarrow> 0 \<le> d \<Longrightarrow> session h (advance h d s)"

text \<open>
  Two state predicates. \<open>oneTimeline\<close>: at most one continuation is pending, and it is
  pending exactly while the status is one of the three that disable the button, the status
  telling which \<^verbatim>\<open>await\<close> it is. \<open>sealed\<close>: a profile in the state is AES-256 and LOCKED.
\<close>

definition stageStatus :: "Stage \<Rightarrow> ReconStatus" where
  "stageStatus st =
     (case st of
        AfterConnect \<Rightarrow> CONNECTING
      | AfterHeaders \<Rightarrow> FETCHING_HEADERS
      | AfterParse \<Rightarrow> PARSING_JSON)"

definition oneTimeline :: "Sys \<Rightarrow> bool" where
  "oneTimeline s =
     (case timers s of
        [] \<Rightarrow> \<not> runDisabled s
      | [tm] \<Rightarrow> status s = stageStatus (stage tm)
      | _ \<Rightarrow> False)"

definition sealed :: "Sys \<Rightarrow> bool" where
  "sealed s =
     (case targetData s of
        None \<Rightarrow> True
      | Some p \<Rightarrow>
          encryptionLevel (security p) = AES_256 \<and> meoContainer (security p) = LOCKED)"

section \<open>The metrics\<close>

text \<open>
  The module's two reference tables, and the \<open>metrics\<close> memo of the component. Its value is
  a number or a string. \<open>metricsFor\<close> is the body of the memo for any two tables;
  \<open>metrics\<close> reads the module's tables and the \<open>encryptedDetections\<close> cell, as the source
  does.
\<close>

definition connectors :: "Connector list" where
  "connectors =
     [\<lparr>c_id = js ''wikimedia'', c_label = js ''Wikimedia Commons'',
       domain = js ''commons.wikimedia.org'', mode = API, compliant = True\<rparr>,
      \<lparr>c_id = js ''inaturalist'', c_label = js ''iNaturalist'',
       domain = js ''api.inaturalist.org'', mode = API, compliant = True\<rparr>,
      \<lparr>c_id = js ''uploads'', c_label = js ''Secure Uploads'',
       domain = js ''uploads.swipeyy.internal'', mode = UPLOAD, compliant = True\<rparr>,
      \<lparr>c_id = js ''custom'', c_label = js ''Custom Connector Slot'',
       domain = js ''pending'', mode = CRAWL, compliant = False\<rparr>]"

definition jobQueue :: "JobRecord list" where
  "jobQueue =
     [\<lparr>j_id = js ''JOB-2041'', source = js ''Wikimedia'', j_status = COMPLETED,
       artifacts = 24, updatedAt = js ''08:11:20Z''\<rparr>,
      \<lparr>j_id = js ''JOB-2042'', source = js ''iNaturalist'', j_status = RUNNING,
       artifacts = 7, updatedAt = js ''08:11:38Z''\<rparr>,
      \<lparr>j_id = js ''JOB-2043'', source = js ''Uploads'', j_status = QUEUED,
       artifacts = 0, updatedAt = js ''08:12:03Z''\<rparr>,
      \<lparr>j_id = js ''JOB-2044'', source = js ''Custom'', j_status = ERRORED,
       artifacts = 0, updatedAt = js ''08:12:30Z''\<rparr>]"

datatype MetricValue = Num nat | Str jsstring

record Metric =
  label :: jsstring
  val :: MetricValue
  hint :: jsstring

definition metricsFor :: "Connector list \<Rightarrow> JobRecord list \<Rightarrow> nat \<Rightarrow> Metric list" where
  "metricsFor cs jobs detections =
     [\<lparr>label = js ''Allowed Connectors'',
       val = Num (length (filter (\<lambda>connector. compliant connector) cs)),
       hint = js ''Guardrails enforced''\<rparr>,
      \<lparr>label = js ''Active Jobs'',
       val = Num (length (filter (\<lambda>job. j_status job = RUNNING \<or> j_status job = QUEUED) jobs)),
       hint = js ''Queue visibility''\<rparr>,
      \<lparr>label = js ''Encrypted Containers Flagged'',
       val = Num detections,
       hint = js ''MEO stays sealed''\<rparr>,
      \<lparr>label = js ''Simulated Uptime'',
       val = Str (js ''99.97%''),
       hint = js ''All core services online''\<rparr>]"

definition metrics :: "Sys \<Rightarrow> Metric list" where
  "metrics s = metricsFor connectors jobQueue (encryptedDetections s)"

text \<open>
  The two counts in the words of the specification: the number of connectors flagged
  compliant, and the number of job records whose status is Running or Queued.
\<close>

fun spec_allowedConnectors :: "Connector list \<Rightarrow> nat" where
  "spec_allowedConnectors [] = 0"
| "spec_allowedConnectors (c # cs) =
     (if compliant c then 1 else 0) + spec_allowedConnectors cs"

fun spec_activeJobs :: "JobRecord list \<Rightarrow> nat" where
  "spec_activeJobs [] = 0"
| "spec_activeJobs (j # jobs) =
     (if j_status j = RUNNING then 1 else if j_status j = QUEUED then 1 else 0)
       + spec_activeJobs jobs"

section \<open>A concrete host and concrete sessions\<close>

text \<open>
  A host whose random draws are all one half, the profile the generator builds for
  \<open>alice\<close> on that host at clock 0, and four sessions that begin at clock 0, with the
  queries \<open>alice\<close>, \<open>ab\<close>, a single space, and \<open>x\<close>.
\<close>

definition impure0 :: Impure where
  "impure0 = \<lparr>rCreated = 1 / 2, rLastActive = 1 / 2,
              uuid = js ''123e4567-e89b-42d3-a456-426614174000'',
              rScore = 1 / 2, rTwoFactor = 1 / 2\<rparr>"

definition host0 :: Host where
  "host0 = \<lparr>impure = (\<lambda>k. impure0), uriMalformed = js ''URI malformed''\<rparr>"

definition profile0 :: TargetProfile where
  "profile0 =
     \<lparr> tp_id = js ''123e4567-e89b-42d3-a456-426614174000'',
       username = js ''alice'',
       platform = SNAPCHAT,
       tp_status = PUBLIC,
       metadata = \<lparr> realName = Some (js ''Unknown Subject''),
                    accountCreated = js ''1969-07-02T12:00:00.000Z'',
                    lastActive = js ''1969-12-31T12:00:00.000Z'',
                    score = Some 250000,
                    avatarUrl = Some (js ''https://api.dicebear.com/9.x/thumbs/svg?seed=alice'') \<rparr>,
       security = \<lparr> encryptionLevel = AES_256, meoContainer = LOCKED,
                    twoFactorAuth = True \<rparr> \<rparr>"

definition alice0 :: Sys where
  "alice0 = setQuery (js ''alice'') (initial 0)"

definition ab0 :: Sys where
  "ab0 = setQuery (js ''ab'') (initial 0)"

definition blank0 :: Sys where
  "blank0 = setQuery (js '' '') (initial 0)"

definition x0 :: Sys where
  "x0 = setQuery (js ''x'') (initial 0)"

section \<open>Library facts\<close>

declare run_to.simps [simp del]

lemma run_to_idle: "timers s = [] \<Longrightarrow> run_to h t s = s\<lparr>clock := max (clock s) t\<rparr>"
  by (subst run_to.simps) simp

lemma run_to_due:
  "earliest (timers s) = Some tm \<Longrightarrow> due tm \<le> t \<Longrightarrow> run_to h t s = run_to h t (fire h s)"
  by (subst run_to.simps) simp

lemma run_to_wait:
  "earliest (timers s) = Some tm \<Longrightarrow> t < due tm
     \<Longrightarrow> run_to h t s = s\<lparr>clock := max (clock s) t\<rparr>"
  by (subst run_to.simps) simp

text \<open>
  A property that every callback and every move of the clock keeps is kept by \<open>run_to\<close>:
  computation induction over its recursion.
\<close>

lemma run_to_preserves:
  assumes init: "P s"
    and step: "\<And>h s. P s \<Longrightarrow> P (fire h s)"
    and tick: "\<And>s c. P s \<Longrightarrow> P (s\<lparr>clock := c\<rparr>)"
  shows "P (run_to h t s)"
  using init
proof (induction h t s rule: run_to.induct)
  case (1 h t s)
  show ?case
  proof (cases "earliest (timers s)")
    case None
    with "1.prems" tick show ?thesis
      by (subst run_to.simps) simp
  next
    case (Some tm)
    show ?thesis
    proof (cases "due tm \<le> t")
      case True
      have "P (fire h s)"
        using "1.prems" by (rule step)
      then have "P (run_to h t (fire h s))"
        using "1.IH" Some True by blast
      then show ?thesis
        using Some True by (simp add: run_to_due)
    next
      case False
      with Some "1.prems" tick show ?thesis
        by (subst run_to.simps) simp
    qed
  qed
qed

subsection \<open>The time of day of a log entry\<close>

lemma digit_unat: "unat (digit n) = 48 + nat (n mod 10)"
proof -
  have small: "unat (word_of_nat k :: 16 word) = k" if "k < 65536" for k
    using that by (simp add: unat_of_nat)
  have "48 + nat (n mod 10) < 65536" by simp
  from small [OF this] show ?thesis
    by (simp add: digit_def)
qed

lemma digit_not_T: "digit n \<noteq> 0x54"
proof
  assume "digit n = 0x54"
  then have "unat (digit n) = unat (0x54 :: 16 word)" by simp
  then show False by (simp add: digit_unat)
qed

lemma split_no_sep: "sep \<notin> set xs \<Longrightarrow> split sep xs = [xs]"
  by (induction xs) auto

lemma split_at_sep: "sep \<notin> set xs \<Longrightarrow> split sep (xs @ sep # ys) = xs # split sep ys"
  by (induction xs) auto

lemma isoDate_no_T: "0x54 \<notin> set (isoDate t)"
  by (auto simp: isoDate_def isoYear_def pad2_def pad4_def pad6_def digit_not_T
      split: prod.splits)

lemma isoTime_no_T: "0x54 \<notin> set (isoTime t @ [0x5A])"
  by (auto simp: isoTime_def pad2_def pad3_def digit_not_T Let_def)

lemma split_toISOString: "split 0x54 (toISOString t) = [isoDate t, isoTime t @ [0x5A]]"
  unfolding toISOString_def
  using split_at_sep [OF isoDate_no_T, of t "isoTime t @ [0x5A]"]
    split_no_sep [OF isoTime_no_T, of t]
  by simp

lemma formatTime_isoTime: "formatTime now = isoTime now"
  by (simp add: formatTime_def split_toISOString)

subsection \<open>Blank queries\<close>

lemma trim_empty_iff: "trim q = [] \<longleftrightarrow> (\<forall>c \<in> set q. isWhiteSpace c)"
proof
  assume "trim q = []"
  then have "\<forall>c \<in> set (dropWhile isWhiteSpace q). isWhiteSpace c"
    by (simp add: trim_def)
  then have "dropWhile isWhiteSpace q = []"
    by (metis hd_dropWhile list.set_sel(1))
  then show "\<forall>c \<in> set q. isWhiteSpace c"
    by simp
next
  assume "\<forall>c \<in> set q. isWhiteSpace c"
  then show "trim q = []"
    by (auto simp: trim_def dest: set_dropWhileD)
qed

lemma js_append: "js (a @ b) = js a @ js b"
  by (simp add: js_def)

lemma length_js: "length (js a) = length a"
  by (simp add: js_def)

lemma trim_alice: "trim (js ''alice'') = js ''alice''"
  by (simp add: trim_def js_def isWhiteSpace_def)

lemma trim_ab: "trim (js ''ab'') = js ''ab''"
  by (simp add: trim_def js_def isWhiteSpace_def)

lemma trim_x: "trim (js ''x'') = js ''x''"
  by (simp add: trim_def js_def isWhiteSpace_def)

lemma trim_blank: "trim (js '' '') = []"
  by (simp add: trim_def js_def isWhiteSpace_def)

lemma encode_alice: "encodeURIComponent (js ''alice'') = Some (js ''alice'')"
  by (simp add: js_def uriUnescaped_def)

subsection \<open>The generator\<close>

lemma buildMockProfile_Inr:
  assumes "buildMockProfile now i u = Inr p"
  shows "username p = u \<and> platform p = SNAPCHAT \<and> tp_status p = PUBLIC
    \<and> realName (metadata p) = Some (js ''Unknown Subject'')
    \<and> encryptionLevel (security p) = AES_256 \<and> meoContainer (security p) = LOCKED
    \<and> (\<exists>seed. encodeURIComponent u = Some seed
          \<and> avatarUrl (metadata p) = Some (js ''https://api.dicebear.com/9.x/thumbs/svg?seed='' @ seed))"
  using assms by (auto simp: buildMockProfile_def Let_def split: option.splits)

lemma buildMockProfile_total:
  assumes "encodeURIComponent u \<noteq> None"
  shows "\<exists>p. buildMockProfile now i u = Inr p"
  using assms by (auto simp: buildMockProfile_def Let_def split: option.splits)

lemma buildMockProfile_Inl:
  "buildMockProfile now i u = Inl e \<Longrightarrow> e = URIError \<and> encodeURIComponent u = None"
  by (auto simp: buildMockProfile_def Let_def split: option.splits)

subsection \<open>One request, from start to its terminal status\<close>

lemma executeRecon_accept:
  assumes "trim (query s) \<noteq> []"
  shows "executeRecon s =
    s\<lparr>logs := [\<lparr>time = formatTime (clock s),
                 msg = js ''Initializing network socket for '' @ query s @ js ''...'',
                 type = sys\<rparr>],
      targetData := None, errorMessage := [], status := CONNECTING,
      timers := timers s @ [\<lparr>due = clock s + 500, captured = query s, stage = AfterConnect\<rparr>]\<rparr>"
  using assms by (simp add: executeRecon_def clearSession_def addLog_def setTimeout_def Let_def)

lemma executeRecon_reject:
  assumes "trim (query s) = []"
  shows "executeRecon s = s\<lparr>errorMessage := js ''Enter a username to start reconnaissance.''\<rparr>"
  using assms by (simp add: executeRecon_def)

lemma clearSession_eq:
  "clearSession s = s\<lparr>logs := [], targetData := None, errorMessage := [], status := IDLE\<rparr>"
  by (simp add: clearSession_def)

text \<open>
  A query of three code units or more whose profile is built. The three timers fire at
  500, 1000 and 1600 milliseconds after the start; each \<open>subst\<close> below is one of them,
  the last finds the queue empty.
\<close>

lemma run_complete:
  assumes "timers s = []" and "trim (query s) \<noteq> []" and "3 \<le> length (query s)"
    and "buildMockProfile (clock s + 1600) (impure h (built s)) (query s) = Inr p"
    and "1600 \<le> d"
  shows "advance h d (executeRecon s) =
    s\<lparr>logs :=
        [\<lparr>time = formatTime (clock s),
          msg = js ''Initializing network socket for '' @ query s @ js ''...'', type = sys\<rparr>,
         \<lparr>time = formatTime (clock s + 500), msg = js ''TLS handshake complete.'', type = info\<rparr>,
         \<lparr>time = formatTime (clock s + 1000),
          msg = js ''GET /api/v1/profile/'' @ query s @ js '' -> 200 OK'', type = success\<rparr>,
         \<lparr>time = formatTime (clock s + 1000), msg = js ''Streaming JSON payload...'', type = info\<rparr>,
         \<lparr>time = formatTime (clock s + 1600), msg = js ''Data object materialized.'', type = success\<rparr>,
         \<lparr>time = formatTime (clock s + 1600),
          msg = js ''MEO container detected: AES-256 encrypted. No access without device key.'',
          type = warn\<rparr>],
      targetData := Some p, errorMessage := [], status := COMPLETE,
      encryptedDetections := encryptedDetections s + 1,
      clock := clock s + d, timers := [], built := built s + 1\<rparr>"
  using assms
  apply (simp add: advance_def executeRecon_accept)
  apply (subst run_to.simps, simp add: fire_def resume_def addLog_def setTimeout_def Let_def add.commute)
  apply (subst run_to.simps, simp add: fire_def resume_def addLog_def setTimeout_def Let_def add.commute)
  apply (subst run_to.simps, simp add: fire_def resume_def addLog_def setTimeout_def Let_def add.commute)
  apply (subst run_to.simps, simp)
  done

text \<open>
  A query of one or two code units: the second continuation logs the GET line, throws, and
  the \<^verbatim>\<open>catch\<close> block ends the request.
\<close>

lemma run_short:
  assumes "timers s = []" and "trim (query s) \<noteq> []" and "length (query s) < 3"
    and "1000 \<le> d"
  shows "advance h d (executeRecon s) =
    s\<lparr>logs :=
        [\<lparr>time = formatTime (clock s),
          msg = js ''Initializing network socket for '' @ query s @ js ''...'', type = sys\<rparr>,
         \<lparr>time = formatTime (clock s + 500), msg = js ''TLS handshake complete.'', type = info\<rparr>,
         \<lparr>time = formatTime (clock s + 1000),
          msg = js ''GET /api/v1/profile/'' @ query s @ js '' -> 200 OK'', type = success\<rparr>,
         \<lparr>time = formatTime (clock s + 1000),
          msg = js ''FATAL: '' @ js ''Username too short (HTTP 400)'', type = error\<rparr>],
      targetData := None, errorMessage := js ''Username too short (HTTP 400)'', status := ERROR,
      clock := clock s + d, timers := []\<rparr>"
  using assms
  apply (simp add: advance_def executeRecon_accept)
  apply (subst run_to.simps, simp add: fire_def resume_def addLog_def setTimeout_def Let_def add.commute)
  apply (subst run_to.simps,
      simp add: fire_def resume_def addLog_def setTimeout_def Let_def catchBlock_def message_def
        add.commute)
  apply (subst run_to.simps, simp)
  done

text \<open>A query of three code units or more on which \<open>buildMockProfile\<close> throws.\<close>

lemma run_malformed:
  assumes "timers s = []" and "trim (query s) \<noteq> []" and "3 \<le> length (query s)"
    and "buildMockProfile (clock s + 1600) (impure h (built s)) (query s) = Inl e"
    and "1600 \<le> d"
  shows "advance h d (executeRecon s) =
    s\<lparr>logs :=
        [\<lparr>time = formatTime (clock s),
          msg = js ''Initializing network socket for '' @ query s @ js ''...'', type = sys\<rparr>,
         \<lparr>time = formatTime (clock s + 500), msg = js ''TLS handshake complete.'', type = info\<rparr>,
         \<lparr>time = formatTime (clock s + 1000),
          msg = js ''GET /api/v1/profile/'' @ query s @ js '' -> 200 OK'', type = success\<rparr>,
         \<lparr>time = formatTime (clock s + 1000), msg = js ''Streaming JSON payload...'', type = info\<rparr>,
         \<lparr>time = formatTime (clock s + 1600), msg = js ''FATAL: '' @ message h e, type = error\<rparr>],
      targetData := None, errorMessage := message h e, status := ERROR,
      clock := clock s + d, timers := [], built := built s + 1\<rparr>"
  using assms
  apply (simp add: advance_def executeRecon_accept)
  apply (subst run_to.simps, simp add: fire_def resume_def addLog_def setTimeout_def Let_def add.commute)
  apply (subst run_to.simps, simp add: fire_def resume_def addLog_def setTimeout_def Let_def add.commute)
  apply (subst run_to.simps,
      simp add: fire_def resume_def addLog_def setTimeout_def Let_def catchBlock_def add.commute)
  apply (subst run_to.simps, simp)
  done

text \<open>The concrete sessions satisfy the hypotheses of these lemmas.\<close>

lemma alice0_facts:
  "timers alice0 = []" "query alice0 = js ''alice''" "clock alice0 = 0"
  "encryptedDetections alice0 = 0" "status alice0 = IDLE" "built alice0 = 0"
  by (simp_all add: alice0_def setQuery_def initial_def)

lemma ab0_facts:
  "timers ab0 = []" "query ab0 = js ''ab''" "clock ab0 = 0"
  "encryptedDetections ab0 = 0" "status ab0 = IDLE"
  by (simp_all add: ab0_def setQuery_def initial_def)

lemma blank0_facts:
  "timers blank0 = []" "query blank0 = js '' ''" "status blank0 = IDLE" "logs blank0 = []"
  "targetData blank0 = None"
  by (simp_all add: blank0_def setQuery_def initial_def)

lemma x0_facts:
  "timers x0 = []" "query x0 = js ''x''" "clock x0 = 0" "status x0 = IDLE"
  by (simp_all add: x0_def setQuery_def initial_def)

lemma iso_created0: "toISOString (- 15768000000) = js ''1969-07-02T12:00:00.000Z''"
  by code_simp

lemma iso_active0: "toISOString (- 43200000) = js ''1969-12-31T12:00:00.000Z''"
  by code_simp

lemma profile0_fields:
  "buildMockProfile 0 impure0 (js ''alice'') =
     Inr \<lparr> tp_id = js ''123e4567-e89b-42d3-a456-426614174000'',
       username = js ''alice'',
       platform = SNAPCHAT,
       tp_status = PUBLIC,
       metadata = \<lparr> realName = Some (js ''Unknown Subject''),
                    accountCreated = toISOString (- 15768000000),
                    lastActive = toISOString (- 43200000),
                    score = Some 250000,
                    avatarUrl = Some (js ''https://api.dicebear.com/9.x/thumbs/svg?seed=''
                                        @ js ''alice'') \<rparr>,
       security = \<lparr> encryptionLevel = AES_256, meoContainer = LOCKED,
                    twoFactorAuth = True \<rparr> \<rparr>"
  by (simp add: buildMockProfile_def encode_alice impure0_def toInteger_def)

lemma profile0_built: "buildMockProfile 0 impure0 (js ''alice'') = Inr profile0"
  unfolding profile0_fields profile0_def iso_created0 iso_active0 js_append [symmetric]
  by simp

lemma alice0_clickRun: "clickRun alice0 = executeRecon alice0"
  by (simp add: clickRun_def runDisabled_def alice0_facts)

lemma js_nonempty: "js (c # cs) \<noteq> []"
  by (simp add: js_def)

lemma alice0_nonblank: "trim (query alice0) \<noteq> []"
  unfolding alice0_facts trim_alice by (rule js_nonempty)

lemma alice0_encodes: "encodeURIComponent (query alice0) \<noteq> None"
  by (simp add: alice0_facts encode_alice)

lemma alice0_run:
  "\<exists>p. targetData (advance host0 1600 (clickRun alice0)) = Some p
     \<and> status (advance host0 1600 (clickRun alice0)) = COMPLETE"
proof -
  obtain p where
    "buildMockProfile (clock alice0 + 1600) (impure host0 (built alice0)) (query alice0) = Inr p"
    using buildMockProfile_total [OF alice0_encodes] by blast
  from run_complete [OF alice0_facts(1) alice0_nonblank _ this, of 1600]
  show ?thesis
    by (simp add: alice0_clickRun alice0_facts length_js)
qed

subsection \<open>Every continuation leaves a trace\<close>

lemma earliest_Some: "ts \<noteq> [] \<Longrightarrow> \<exists>tm. earliest ts = Some tm"
  by (cases ts) (auto split: option.splits)

lemma resume_logs: "logs (resume h tm s) \<noteq> []"
  by (cases "stage tm")
     (auto simp: resume_def addLog_def setTimeout_def catchBlock_def Let_def split: sum.splits)

lemma resume_status: "status (resume h tm s) \<noteq> IDLE"
  by (cases "stage tm")
     (auto simp: resume_def addLog_def setTimeout_def catchBlock_def Let_def split: sum.splits)

lemma fire_trace:
  assumes "timers s \<noteq> []"
  shows "logs (fire h s) \<noteq> [] \<and> status (fire h s) \<noteq> IDLE"
proof -
  from assms obtain tm where "earliest (timers s) = Some tm"
    using earliest_Some by blast
  then show ?thesis
    by (simp add: fire_def resume_logs resume_status)
qed

subsection \<open>Invariants\<close>

lemma sealed_resume: "sealed s \<Longrightarrow> sealed (resume h tm s)"
  by (cases "stage tm")
     (auto simp: sealed_def resume_def addLog_def setTimeout_def catchBlock_def Let_def
        dest: buildMockProfile_Inr split: sum.splits option.splits)

lemma sealed_fire: "sealed s \<Longrightarrow> sealed (fire h s)"
proof (cases "earliest (timers s)")
  case None
  assume "sealed s"
  with None show ?thesis by (simp add: fire_def)
next
  case (Some tm)
  assume "sealed s"
  then have "sealed (s\<lparr>timers := remove1 tm (timers s), clock := max (clock s) (due tm)\<rparr>)"
    by (simp add: sealed_def)
  then show ?thesis
    using Some by (simp add: fire_def sealed_resume)
qed

lemma sealed_clock: "sealed s \<Longrightarrow> sealed (s\<lparr>clock := c\<rparr>)"
  by (simp add: sealed_def)

lemma sealed_executeRecon: "sealed s \<Longrightarrow> sealed (executeRecon s)"
  by (simp add: sealed_def executeRecon_def clearSession_def addLog_def setTimeout_def Let_def)

lemma sealed_reachable: "reachable h s \<Longrightarrow> sealed s"
proof (induction rule: reachable.induct)
  case (r_initial t0)
  show ?case by (simp add: sealed_def initial_def)
next
  case (r_setQuery s q)
  then show ?case by (simp add: sealed_def setQuery_def)
next
  case (r_clickRun s)
  then show ?case by (simp add: clickRun_def sealed_executeRecon)
next
  case (r_advance s d)
  from r_advance.IH show ?case
    unfolding advance_def
    by (rule run_to_preserves) (simp_all add: sealed_fire sealed_clock)
next
  case (r_executeRecon s)
  from r_executeRecon.IH show ?case by (rule sealed_executeRecon)
next
  case (r_clearSession s)
  then show ?case by (simp add: sealed_def clearSession_def)
qed

lemma oneTimeline_resume:
  assumes "status s = stageStatus (stage tm)" and "timers s = []"
  shows "oneTimeline (resume h tm s)"
proof (cases "stage tm")
  case AfterConnect
  with assms show ?thesis
    by (simp add: oneTimeline_def stageStatus_def resume_def addLog_def setTimeout_def Let_def)
next
  case AfterHeaders
  with assms show ?thesis
    by (simp add: oneTimeline_def stageStatus_def runDisabled_def resume_def addLog_def
        setTimeout_def catchBlock_def Let_def)
next
  case AfterParse
  with assms show ?thesis
    by (simp add: oneTimeline_def stageStatus_def runDisabled_def resume_def addLog_def
        catchBlock_def Let_def split: sum.splits)
qed

lemma oneTimeline_fire: "oneTimeline s \<Longrightarrow> oneTimeline (fire h s)"
proof (cases "timers s")
  case Nil
  assume "oneTimeline s"
  with Nil show ?thesis by (simp add: fire_def)
next
  case (Cons tm rest)
  assume inv: "oneTimeline s"
  with Cons have rest: "rest = []" and st: "status s = stageStatus (stage tm)"
    by (auto simp: oneTimeline_def split: list.splits)
  have "fire h s = resume h tm (s\<lparr>timers := [], clock := max (clock s) (due tm)\<rparr>)"
    using Cons rest by (simp add: fire_def)
  moreover have "oneTimeline (resume h tm (s\<lparr>timers := [], clock := max (clock s) (due tm)\<rparr>))"
    using st by (intro oneTimeline_resume) simp_all
  ultimately show ?thesis by simp
qed

lemma oneTimeline_clock: "oneTimeline s \<Longrightarrow> oneTimeline (s\<lparr>clock := c\<rparr>)"
  by (simp add: oneTimeline_def runDisabled_def split: list.splits)

lemma oneTimeline_idle: "oneTimeline s \<Longrightarrow> \<not> runDisabled s \<Longrightarrow> timers s = []"
  by (auto simp: oneTimeline_def runDisabled_def stageStatus_def
      split: list.splits Stage.splits)

lemma oneTimeline_clickRun: "oneTimeline s \<Longrightarrow> oneTimeline (clickRun s)"
proof (cases "runDisabled s")
  case True
  assume "oneTimeline s"
  with True show ?thesis by (simp add: clickRun_def)
next
  case False
  assume inv: "oneTimeline s"
  with False have idle: "timers s = []" by (rule oneTimeline_idle [rotated])
  show ?thesis
  proof (cases "trim (query s) = []")
    case True
    with False idle show ?thesis
      by (simp add: clickRun_def executeRecon_reject oneTimeline_def runDisabled_def)
  next
    case blank: False
    with False idle show ?thesis
      by (simp add: clickRun_def executeRecon_accept oneTimeline_def stageStatus_def)
  qed
qed

lemma oneTimeline_session: "session h s \<Longrightarrow> oneTimeline s"
proof (induction rule: session.induct)
  case (s_initial t0)
  show ?case by (simp add: oneTimeline_def initial_def runDisabled_def)
next
  case (s_setQuery s q)
  then show ?case by (simp add: oneTimeline_def setQuery_def runDisabled_def split: list.splits)
next
  case (s_clickRun s)
  from s_clickRun.IH show ?case by (rule oneTimeline_clickRun)
next
  case (s_advance s d)
  from s_advance.IH show ?case
    unfolding advance_def
    by (rule run_to_preserves) (simp_all add: oneTimeline_fire oneTimeline_clock)
qed

text \<open>
  In a session with nothing pending the button is enabled, and a click on it is a call of
  \<open>executeRecon\<close>.
\<close>

lemma clickRun_enabled:
  assumes "session h s" and "timers s = []"
  shows "clickRun s = executeRecon s"
proof -
  from assms(1) have "oneTimeline s"
    by (rule oneTimeline_session)
  with assms(2) have "\<not> runDisabled s"
    by (simp add: oneTimeline_def)
  then show ?thesis
    by (simp add: clickRun_def)
qed

lemma session_reachable: "session h s \<Longrightarrow> reachable h s"
  by (induction rule: session.induct) (auto intro: reachable.intros)

section \<open>The generator's claims\<close>

text \<open>
  C9. The avatar reference of a generated profile is derived from the username alone: two
  calls of \<open>buildMockProfile\<close> on the same username, at any two clock readings and with any
  two sets of random draws and identifiers, give the same \<open>avatarUrl\<close> (or both throw, on
  a username that \<open>encodeURIComponent\<close> rejects).
\<close>

theorem avatarUrl_deterministic:
  "map_sum id (\<lambda>p. avatarUrl (metadata p)) (buildMockProfile now1 i1 u)
     = map_sum id (\<lambda>p. avatarUrl (metadata p)) (buildMockProfile now2 i2 u)"
  by (simp add: buildMockProfile_def Let_def split: option.splits)

text \<open>
  C10. Every profile the generator returns has \<open>realName\<close> set to the string
  \<open>Unknown Subject\<close> (never null), \<open>platform\<close> SNAPCHAT and \<open>status\<close> PUBLIC, whatever
  the username, the clock and the random draws are.
\<close>

theorem generator_constants:
  assumes "buildMockProfile now i u = Inr p"
  shows "realName (metadata p) = Some (js ''Unknown Subject'')
     \<and> platform p = SNAPCHAT \<and> tp_status p = PUBLIC"
  using buildMockProfile_Inr [OF assms] by simp

theorem generator_constants_witness:
  "buildMockProfile 0 impure0 (js ''alice'') = Inr profile0
   \<and> realName (metadata profile0) = Some (js ''Unknown Subject'')
   \<and> platform profile0 = SNAPCHAT \<and> tp_status profile0 = PUBLIC"
proof -
  have built: "buildMockProfile 0 impure0 (js ''alice'') = Inr profile0"
    by (rule profile0_built)
  from generator_constants [OF built] built show ?thesis
    by simp
qed

text \<open>
  C7. Every profile the generator returns has \<open>encryptionLevel\<close> AES-256 and
  \<open>meoContainer\<close> LOCKED, and no reachable state holds a profile whose container is
  EXPOSED.
\<close>

theorem sealed_container_invariant:
  "(\<forall>p. buildMockProfile now i u = Inr p \<longrightarrow>
        encryptionLevel (security p) = AES_256 \<and> meoContainer (security p) = LOCKED)
   \<and> (\<forall>p. reachable h s \<and> targetData s = Some p \<longrightarrow>
        meoContainer (security p) = LOCKED \<and> meoContainer (security p) \<noteq> EXPOSED)"
proof (intro conjI allI impI)
  fix p
  assume "buildMockProfile now i u = Inr p"
  from buildMockProfile_Inr [OF this]
  show "encryptionLevel (security p) = AES_256" and "meoContainer (security p) = LOCKED"
    by simp_all
next
  fix p
  assume a: "reachable h s \<and> targetData s = Some p"
  then have "sealed s"
    using sealed_reachable by blast
  with a show "meoContainer (security p) = LOCKED"
    by (simp add: sealed_def)
  then show "meoContainer (security p) \<noteq> EXPOSED"
    by simp
qed

theorem sealed_container_invariant_witness:
  "buildMockProfile 0 impure0 (js ''alice'') = Inr profile0
   \<and> meoContainer (security profile0) = LOCKED
   \<and> reachable host0 (advance host0 1600 (clickRun alice0))
   \<and> (\<exists>p. targetData (advance host0 1600 (clickRun alice0)) = Some p
          \<and> meoContainer (security p) = LOCKED)"
proof -
  have r: "reachable host0 (advance host0 1600 (clickRun alice0))"
    unfolding alice0_def
    by (intro reachable.intros) simp
  obtain p where p: "targetData (advance host0 1600 (clickRun alice0)) = Some p"
    using alice0_run by blast
  note inv = sealed_container_invariant
    [of 0 impure0 "js ''alice''" host0 "advance host0 1600 (clickRun alice0)"]
  from inv profile0_built have "meoContainer (security profile0) = LOCKED"
    by blast
  moreover from inv r p have "meoContainer (security p) = LOCKED"
    by blast
  ultimately show ?thesis
    using r p profile0_built by blast
qed

section \<open>The metrics' claim\<close>

text \<open>
  C8. The first metric is the number of connectors flagged compliant, the second the number
  of job records whose status is Running or Queued, for any two tables; on the module's
  tables they are 3 and 2. The metrics are a function of the \<open>encryptedDetections\<close> cell
  alone: two states with the same counter have the same metrics, whatever their clocks, logs
  and phases are.
\<close>

theorem metrics_counts:
  "label (metricsFor cs jobs n ! 0) = js ''Allowed Connectors''
   \<and> val (metricsFor cs jobs n ! 0) = Num (spec_allowedConnectors cs)
   \<and> label (metricsFor cs jobs n ! 1) = js ''Active Jobs''
   \<and> val (metricsFor cs jobs n ! 1) = Num (spec_activeJobs jobs)
   \<and> val (metrics s ! 0) = Num 3 \<and> val (metrics s ! 1) = Num 2
   \<and> (encryptedDetections s = encryptedDetections s' \<longrightarrow> metrics s = metrics s')"
proof -
  have c: "length (filter (\<lambda>connector. compliant connector) xs) = spec_allowedConnectors xs"
    for xs
    by (induction xs) simp_all
  have j: "length (filter (\<lambda>job. j_status job = RUNNING \<or> j_status job = QUEUED) ys)
      = spec_activeJobs ys" for ys
    by (induction ys) simp_all
  have "val (metrics s ! 0) = Num 3" and "val (metrics s ! 1) = Num 2"
    by (simp_all add: metrics_def metricsFor_def connectors_def jobQueue_def)
  then show ?thesis
    by (simp add: metricsFor_def c j metrics_def)
qed

theorem metrics_counts_witness:
  "encryptedDetections alice0 = encryptedDetections ab0 \<and> alice0 \<noteq> ab0
   \<and> metrics alice0 = metrics ab0"
proof -
  have e: "encryptedDetections alice0 = encryptedDetections ab0"
    by (simp add: alice0_facts ab0_facts)
  have "query alice0 \<noteq> query ab0"
    by (simp add: alice0_facts ab0_facts js_def)
  then have "alice0 \<noteq> ab0"
    by auto
  with e metrics_counts [where s = alice0 and s' = ab0] show ?thesis
    by blast
qed

section \<open>The state machine's claims\<close>

text \<open>
  C5. A query whose trimmed form is empty is rejected at once: \<open>executeRecon\<close> returns
  with the state as it was except for \<open>errorMessage\<close>, which now carries the message for
  the user. The status stays what it was (IDLE stays IDLE), no log entry is appended, and
  nothing is scheduled.
\<close>

theorem blank_query_rejected:
  assumes "trim (query s) = []"
  shows "executeRecon s = s\<lparr>errorMessage := js ''Enter a username to start reconnaissance.''\<rparr>
     \<and> status (executeRecon s) = status s
     \<and> logs (executeRecon s) = logs s
     \<and> timers (executeRecon s) = timers s"
  using assms by (simp add: executeRecon_reject)

theorem blank_query_rejected_witness:
  "trim (query blank0) = []
   \<and> executeRecon blank0 = blank0\<lparr>errorMessage := js ''Enter a username to start reconnaissance.''\<rparr>
   \<and> status (executeRecon blank0) = IDLE
   \<and> logs (executeRecon blank0) = []
   \<and> timers (executeRecon blank0) = []"
proof -
  have blank: "trim (query blank0) = []"
    by (simp add: blank0_facts trim_blank)
  from blank_query_rejected [OF blank] blank show ?thesis
    by (simp add: blank0_facts)
qed

text \<open>
  C3. While the status is CONNECTING, FETCHING_HEADERS or PARSING_JSON the RUN button is
  disabled and a click on it is a no-op: the state, its log and its pending timers are
  unchanged. In every session of the interface a continuation is pending exactly while the
  status is one of these three, and never more than one, so a second timeline never starts
  beside the one in flight. (The check is the button's; \<open>executeRecon\<close> has none of its own.)
\<close>

theorem run_button_gate:
  "(status s = CONNECTING \<or> status s = FETCHING_HEADERS \<or> status s = PARSING_JSON
      \<longrightarrow> clickRun s = s)
   \<and> (session h s \<longrightarrow>
        length (timers s) \<le> 1
        \<and> (timers s \<noteq> [] \<longleftrightarrow>
             status s = CONNECTING \<or> status s = FETCHING_HEADERS \<or> status s = PARSING_JSON))"
proof (intro conjI impI)
  assume "status s = CONNECTING \<or> status s = FETCHING_HEADERS \<or> status s = PARSING_JSON"
  then show "clickRun s = s"
    by (simp add: clickRun_def runDisabled_def)
next
  assume "session h s"
  then have inv: "oneTimeline s"
    by (rule oneTimeline_session)
  then show "length (timers s) \<le> 1"
    by (simp add: oneTimeline_def split: list.splits)
  from inv show "timers s \<noteq> [] \<longleftrightarrow>
      status s = CONNECTING \<or> status s = FETCHING_HEADERS \<or> status s = PARSING_JSON"
    by (auto simp: oneTimeline_def runDisabled_def stageStatus_def
        split: list.splits Stage.splits)
qed

theorem run_button_gate_witness:
  "status (clickRun alice0) = CONNECTING
   \<and> session host0 (clickRun alice0)
   \<and> clickRun (clickRun alice0) = clickRun alice0
   \<and> length (timers (clickRun alice0)) = 1"
proof -
  have st: "status (clickRun alice0) = CONNECTING"
    by (simp add: alice0_clickRun executeRecon_accept [OF alice0_nonblank])
  have se: "session host0 (clickRun alice0)"
    unfolding alice0_def by (intro session.intros)
  have len: "length (timers (clickRun alice0)) = 1"
    by (simp add: alice0_clickRun executeRecon_accept [OF alice0_nonblank] alice0_facts)
  from run_button_gate [of "clickRun alice0" host0] st se len show ?thesis
    by simp
qed

text \<open>
  C1, as the code has it. For every query of one or two code units whose trimmed form is not
  empty, \<open>executeRecon\<close> called while nothing is pending starts a request that has ended
  1000 milliseconds later:
  the status is ERROR, there is no profile, the error message is
  \<open>Username too short (HTTP 400)\<close>, nothing is left pending, the log begins with the
  \<open>sys\<close> entry \<open>Initializing network socket for {query}...\<close> and the \<open>info\<close> entry
  \<open>TLS handshake complete.\<close>, and it ends with the \<open>error\<close> entry
  \<open>FATAL: Username too short (HTTP 400)\<close>.
\<close>

theorem short_query_ends_in_error:
  assumes "timers s = []" and "trim (query s) \<noteq> []" and "length (query s) < 3"
    and "1000 \<le> d"
  shows "status (advance h d (executeRecon s)) = ERROR
     \<and> targetData (advance h d (executeRecon s)) = None
     \<and> errorMessage (advance h d (executeRecon s)) = js ''Username too short (HTTP 400)''
     \<and> timers (advance h d (executeRecon s)) = []
     \<and> map (\<lambda>e. (type e, msg e)) (take 2 (logs (advance h d (executeRecon s))))
         = [(sys, js ''Initializing network socket for '' @ query s @ js ''...''),
            (info, js ''TLS handshake complete.'')]
     \<and> type (last (logs (advance h d (executeRecon s)))) = error
     \<and> msg (last (logs (advance h d (executeRecon s))))
         = js ''FATAL: Username too short (HTTP 400)''"
  unfolding run_short [OF assms] using assms(1)
  by (simp add: js_append [symmetric])

theorem short_query_ends_in_error_witness:
  "timers ab0 = [] \<and> trim (query ab0) \<noteq> [] \<and> length (query ab0) < 3
   \<and> status (advance host0 1000 (executeRecon ab0)) = ERROR
   \<and> targetData (advance host0 1000 (executeRecon ab0)) = None
   \<and> errorMessage (advance host0 1000 (executeRecon ab0)) = js ''Username too short (HTTP 400)''
   \<and> msg (last (logs (advance host0 1000 (executeRecon ab0))))
       = js ''FATAL: Username too short (HTTP 400)''"
proof -
  have quiet: "timers ab0 = []"
    by (simp add: ab0_facts)
  have nonblank: "trim (query ab0) \<noteq> []"
    unfolding ab0_facts trim_ab by (rule js_nonempty)
  have short: "length (query ab0) < 3"
    by (simp add: ab0_facts length_js)
  from short_query_ends_in_error [OF quiet nonblank short, of 1000 host0] quiet nonblank short
  show ?thesis
    by simp
qed

text \<open>
  The claim as it is written in the specification covers every query of length one or two.
  A single space is such a query; its trimmed form is empty, so \<open>executeRecon\<close> rejects it
  and starts nothing: ten seconds later the status is still IDLE and the error message is
  the one of the rejection.
\<close>

theorem blank_short_query_counterexample:
  "0 < length (query blank0) \<and> length (query blank0) < 3
   \<and> timers (executeRecon blank0) = []
   \<and> status (advance host0 10000 (executeRecon blank0)) = IDLE
   \<and> status (advance host0 10000 (executeRecon blank0)) \<noteq> ERROR
   \<and> errorMessage (advance host0 10000 (executeRecon blank0))
       \<noteq> js ''Username too short (HTTP 400)''"
proof -
  have blank: "trim (query blank0) = []"
    by (simp add: blank0_facts trim_blank)
  have run: "advance host0 10000 (executeRecon blank0)
      = blank0\<lparr>errorMessage := js ''Enter a username to start reconnaissance.'',
               clock := max (clock blank0) (clock blank0 + 10000)\<rparr>"
    by (simp add: executeRecon_reject [OF blank] advance_def run_to_idle blank0_facts)
  have differ: "js ''Enter a username to start reconnaissance.'' \<noteq> js ''Username too short (HTTP 400)''"
    by (simp add: js_def)
  show ?thesis
    unfolding run using differ
    by (simp add: executeRecon_reject [OF blank] blank0_facts length_js)
qed

text \<open>
  The log of the run on \<open>ab\<close> in full: between the two opening entries and the closing
  \<open>error\<close> entry stands the \<open>success\<close> entry of the GET line, which the second
  continuation appends before it compares the length.
\<close>

lemma ab0_log:
  "map (\<lambda>e. (type e, msg e)) (logs (advance host0 1000 (executeRecon ab0)))
     = [(sys, js ''Initializing network socket for ab...''),
        (info, js ''TLS handshake complete.''),
        (success, js ''GET /api/v1/profile/ab -> 200 OK''),
        (error, js ''FATAL: Username too short (HTTP 400)'')]"
proof -
  have quiet: "timers ab0 = []"
    by (simp add: ab0_facts)
  have nonblank: "trim (query ab0) \<noteq> []"
    unfolding ab0_facts trim_ab by (rule js_nonempty)
  have short: "length (query ab0) < 3"
    by (simp add: ab0_facts length_js)
  show ?thesis
    unfolding run_short [OF quiet nonblank short order_refl]
    by (simp add: ab0_facts js_append [symmetric])
qed

text \<open>
  C4, as the code has it. For every query of three code units or more whose trimmed form is
  not empty and which \<open>encodeURIComponent\<close> accepts, \<open>executeRecon\<close> called while nothing
  is pending starts a request that has ended 1600 milliseconds later: the status is
  COMPLETE, the profile is present,
  its username is the query and its container is LOCKED, nothing is left pending, and the log
  has six entries, of the types sys, info, success, info, success, warn in this order.
\<close>

theorem long_query_completes:
  assumes "timers s = []" and "trim (query s) \<noteq> []" and "3 \<le> length (query s)"
    and "encodeURIComponent (query s) \<noteq> None" and "1600 \<le> d"
  shows "status (advance h d (executeRecon s)) = COMPLETE
     \<and> (\<exists>p. targetData (advance h d (executeRecon s)) = Some p
            \<and> username p = query s \<and> meoContainer (security p) = LOCKED)
     \<and> timers (advance h d (executeRecon s)) = []
     \<and> length (logs (advance h d (executeRecon s))) = 6
     \<and> map type (logs (advance h d (executeRecon s)))
         = [sys, info, success, info, success, warn]
     \<and> map type (drop 4 (logs (advance h d (executeRecon s)))) = [success, warn]"
proof -
  obtain p where
    p: "buildMockProfile (clock s + 1600) (impure h (built s)) (query s) = Inr p"
    using buildMockProfile_total [OF assms(4)] by blast
  from buildMockProfile_Inr [OF p]
  have "username p = query s" and "meoContainer (security p) = LOCKED"
    by simp_all
  then show ?thesis
    unfolding run_complete [OF assms(1-3) p assms(5)] by simp
qed

theorem long_query_completes_witness:
  "timers alice0 = [] \<and> trim (query alice0) \<noteq> [] \<and> 3 \<le> length (query alice0)
   \<and> encodeURIComponent (query alice0) \<noteq> None
   \<and> status (advance host0 1600 (executeRecon alice0)) = COMPLETE
   \<and> (\<exists>p. targetData (advance host0 1600 (executeRecon alice0)) = Some p
          \<and> username p = js ''alice'' \<and> meoContainer (security p) = LOCKED)
   \<and> map type (logs (advance host0 1600 (executeRecon alice0)))
       = [sys, info, success, info, success, warn]"
proof -
  have quiet: "timers alice0 = []"
    by (simp add: alice0_facts)
  have long: "3 \<le> length (query alice0)"
    by (simp add: alice0_facts length_js)
  from long_query_completes [OF quiet alice0_nonblank long alice0_encodes, of 1600 host0]
    quiet alice0_nonblank long alice0_encodes
  show ?thesis
    by (simp add: alice0_facts)
qed

text \<open>
  The claim as it is written in the specification gives the final log the count 5. The run
  on \<open>alice\<close> ends COMPLETE with a log of six entries.
\<close>

theorem alice_log_count_counterexample:
  "3 \<le> length (query alice0)
   \<and> status (advance host0 1600 (executeRecon alice0)) = COMPLETE
   \<and> length (logs (advance host0 1600 (executeRecon alice0))) = 6
   \<and> length (logs (advance host0 1600 (executeRecon alice0))) \<noteq> 5"
proof -
  have quiet: "timers alice0 = []"
    by (simp add: alice0_facts)
  have long: "3 \<le> length (query alice0)"
    by (simp add: alice0_facts length_js)
  obtain p where
    p: "buildMockProfile (clock alice0 + 1600) (impure host0 (built alice0)) (query alice0) = Inr p"
    using buildMockProfile_total [OF alice0_encodes] by blast
  show ?thesis
    unfolding run_complete [OF quiet alice0_nonblank long p order_refl] using long by simp
qed

text \<open>
  Three spaces are a query of three code units whose trimmed form is empty; it is rejected
  like every blank query.
\<close>

lemma blank_long_query:
  assumes "query s = js ''   ''"
  shows "length (query s) = 3
     \<and> executeRecon s = s\<lparr>errorMessage := js ''Enter a username to start reconnaissance.''\<rparr>"
proof -
  have "trim (query s) = []"
    by (simp add: assms trim_def js_def isWhiteSpace_def)
  then show ?thesis
    by (simp add: executeRecon_reject) (simp add: assms length_js)
qed

text \<open>
  A query of three code units whose last one is an unpaired surrogate: the generator throws
  on it, and the request ends in ERROR with the engine's URIError message.
\<close>

lemma unpaired_surrogate_run:
  assumes "timers s = []" and "query s = [0x61, 0x62, 0xD800]"
  shows "status (advance h 1600 (executeRecon s)) = ERROR
     \<and> errorMessage (advance h 1600 (executeRecon s)) = uriMalformed h
     \<and> targetData (advance h 1600 (executeRecon s)) = None
     \<and> encryptedDetections (advance h 1600 (executeRecon s)) = encryptedDetections s"
proof -
  have enc: "encodeURIComponent (query s) = None"
    by (simp add: assms(2) uriUnescaped_def isLeadSurrogate_def isTrailSurrogate_def)
  have nonblank: "trim (query s) \<noteq> []"
    by (simp add: assms(2) trim_def isWhiteSpace_def)
  have long: "3 \<le> length (query s)"
    by (simp add: assms(2))
  have thrown: "buildMockProfile (clock s + 1600) (impure h (built s)) (query s) = Inl URIError"
    by (simp add: buildMockProfile_def enc)
  show ?thesis
    unfolding run_malformed [OF assms(1) nonblank long thrown order_refl]
    by (simp add: message_def)
qed

text \<open>
  C6. A request started while nothing is pending has ended 1600 milliseconds later, either
  COMPLETE with the counter \<open>encryptedDetections\<close> one higher than before, or in ERROR with
  the counter as before. \<open>clearSession\<close> empties the log, the profile and the error
  message and sets the status to IDLE; the counter keeps its value.
\<close>

theorem counter_frame:
  assumes "timers s = []" and "trim (query s) \<noteq> []" and "1600 \<le> d"
  shows "(status (advance h d (executeRecon s)) = COMPLETE
            \<and> encryptedDetections (advance h d (executeRecon s)) = encryptedDetections s + 1
          \<or> status (advance h d (executeRecon s)) = ERROR
            \<and> encryptedDetections (advance h d (executeRecon s)) = encryptedDetections s)
     \<and> logs (clearSession r) = [] \<and> targetData (clearSession r) = None
     \<and> errorMessage (clearSession r) = [] \<and> status (clearSession r) = IDLE
     \<and> encryptedDetections (clearSession r) = encryptedDetections r"
proof -
  have run: "status (advance h d (executeRecon s)) = COMPLETE
        \<and> encryptedDetections (advance h d (executeRecon s)) = encryptedDetections s + 1
      \<or> status (advance h d (executeRecon s)) = ERROR
        \<and> encryptedDetections (advance h d (executeRecon s)) = encryptedDetections s"
  proof (cases "length (query s) < 3")
    case True
    from assms(3) have "1000 \<le> d" by simp
    from run_short [OF assms(1,2) True this] show ?thesis
      by simp
  next
    case False
    then have long: "3 \<le> length (query s)" by simp
    show ?thesis
    proof (cases "buildMockProfile (clock s + 1600) (impure h (built s)) (query s)")
      case (Inl e)
      from run_malformed [OF assms(1,2) long Inl assms(3)] show ?thesis
        by simp
    next
      case (Inr p)
      from run_complete [OF assms(1,2) long Inr assms(3)] show ?thesis
        by simp
    qed
  qed
  then show ?thesis
    by (simp add: clearSession_eq)
qed

theorem counter_frame_witness:
  "timers alice0 = [] \<and> trim (query alice0) \<noteq> []
   \<and> status (advance host0 1600 (executeRecon alice0)) = COMPLETE
   \<and> encryptedDetections alice0 = 0
   \<and> encryptedDetections (advance host0 1600 (executeRecon alice0)) = 1
   \<and> encryptedDetections (clearSession (advance host0 1600 (executeRecon alice0))) = 1"
proof -
  have quiet: "timers alice0 = []"
    by (simp add: alice0_facts)
  have complete: "status (advance host0 1600 (executeRecon alice0)) = COMPLETE"
    using alice0_run by (simp add: alice0_clickRun)
  from counter_frame [OF quiet alice0_nonblank, of 1600 host0
      "advance host0 1600 (executeRecon alice0)"] complete quiet alice0_nonblank
  show ?thesis
    by (simp add: alice0_facts)
qed

text \<open>
  C2, as the code has it. \<open>clearSession\<close> called while a continuation is pending sets the
  status to IDLE and empties the log, the profile and the error message at once, and leaves
  the counter alone; it cancels nothing. The pending continuations are the same as before,
  and the next one to run appends a log entry to the cleared log and moves the status away
  from IDLE.
\<close>

theorem clearSession_cancels_nothing:
  assumes "timers s \<noteq> []"
  shows "status (clearSession s) = IDLE \<and> logs (clearSession s) = []
     \<and> targetData (clearSession s) = None \<and> errorMessage (clearSession s) = []
     \<and> encryptedDetections (clearSession s) = encryptedDetections s
     \<and> timers (clearSession s) = timers s
     \<and> logs (fire h (clearSession s)) \<noteq> []
     \<and> status (fire h (clearSession s)) \<noteq> IDLE"
proof -
  have "timers (clearSession s) \<noteq> []"
    using assms by (simp add: clearSession_eq)
  from fire_trace [OF this] show ?thesis
    by (simp add: clearSession_eq)
qed

theorem clearSession_cancels_nothing_witness:
  "timers (executeRecon x0) \<noteq> [] \<and> status (executeRecon x0) = CONNECTING
   \<and> status (clearSession (executeRecon x0)) = IDLE
   \<and> logs (clearSession (executeRecon x0)) = []
   \<and> timers (clearSession (executeRecon x0)) = timers (executeRecon x0)
   \<and> logs (fire host0 (clearSession (executeRecon x0))) \<noteq> []"
proof -
  have nonblank: "trim (query x0) \<noteq> []"
    unfolding x0_facts trim_x by (rule js_nonempty)
  have pending: "timers (executeRecon x0) \<noteq> []"
    by (simp add: executeRecon_accept [OF nonblank])
  have st: "status (executeRecon x0) = CONNECTING"
    by (simp add: executeRecon_accept [OF nonblank])
  from clearSession_cancels_nothing [OF pending, of host0] pending st show ?thesis
    by simp
qed

text \<open>
  The claim as it is written in the specification: after \<open>start("x")\<close> and a reset in
  mid-flight nothing more is logged. In the code the two continuations of the request still
  run; one second after the reset the cleared log holds their three entries and the status
  is ERROR.
\<close>

theorem reset_midflight_counterexample:
  "status (executeRecon x0) = CONNECTING
   \<and> logs (clearSession (executeRecon x0)) = []
   \<and> map type (logs (advance host0 1000 (clearSession (executeRecon x0))))
       = [info, success, error]
   \<and> logs (advance host0 1000 (clearSession (executeRecon x0))) \<noteq> []
   \<and> status (advance host0 1000 (clearSession (executeRecon x0))) = ERROR"
proof -
  have nonblank: "trim (query x0) \<noteq> []"
    unfolding x0_facts trim_x by (rule js_nonempty)
  have cleared: "clearSession (executeRecon x0)
      = \<lparr>query = js ''x'', status = IDLE, logs = [], targetData = None, errorMessage = [],
         encryptedDetections = 0, clock = 0,
         timers = [\<lparr>due = 500, captured = js ''x'', stage = AfterConnect\<rparr>], built = 0\<rparr>"
    unfolding executeRecon_accept [OF nonblank] clearSession_eq
    by (simp add: x0_def setQuery_def initial_def)
  have final: "advance host0 1000 (clearSession (executeRecon x0))
      = \<lparr>query = js ''x'', status = ERROR,
         logs = [\<lparr>time = formatTime 500, msg = js ''TLS handshake complete.'', type = info\<rparr>,
                 \<lparr>time = formatTime 1000,
                  msg = js ''GET /api/v1/profile/'' @ js ''x'' @ js '' -> 200 OK'',
                  type = success\<rparr>,
                 \<lparr>time = formatTime 1000,
                  msg = js ''FATAL: '' @ js ''Username too short (HTTP 400)'', type = error\<rparr>],
         targetData = None, errorMessage = js ''Username too short (HTTP 400)'',
         encryptedDetections = 0, clock = 1000, timers = [], built = 0\<rparr>"
    unfolding cleared advance_def
    apply simp
    apply (subst run_to.simps, simp add: fire_def resume_def addLog_def setTimeout_def Let_def)
    apply (subst run_to.simps,
        simp add: fire_def resume_def addLog_def setTimeout_def Let_def catchBlock_def
          message_def length_js)
    apply (subst run_to.simps, simp)
    done
  show ?thesis
    unfolding final by (simp add: executeRecon_accept [OF nonblank] clearSession_eq)
qed

end
